theory Spec2Isabelle
  imports Complex_Main "HOL-Library.Stream" "HOL-Library.Signed_Division"
begin

section \<open>Floating-point values\<close>

text \<open>
  The filter computes on Go \<^verbatim>\<open>float64\<close> values. They are modelled as the real numbers
  extended by the three special values of IEEE 754 that the code can produce by dividing
  by zero: the two infinities and NaN. Rounding and overflow are not modelled (every
  finite operation is exact), and the two zeros are identified (a division of a non-zero
  finite value by zero takes the sign of the dividend). Comparisons with NaN are false,
  as in Go.
\<close>

datatype float64 = Fin real | PInf | NInf | NaN

fun fneg :: "float64 \<Rightarrow> float64" where
  "fneg (Fin a) = Fin (- a)"
| "fneg PInf = NInf"
| "fneg NInf = PInf"
| "fneg NaN = NaN"

fun fadd :: "float64 \<Rightarrow> float64 \<Rightarrow> float64" where
  "fadd NaN _ = NaN"
| "fadd _ NaN = NaN"
| "fadd (Fin a) (Fin b) = Fin (a + b)"
| "fadd PInf NInf = NaN"
| "fadd NInf PInf = NaN"
| "fadd PInf _ = PInf"
| "fadd _ PInf = PInf"
| "fadd NInf _ = NInf"
| "fadd _ NInf = NInf"

definition fsub :: "float64 \<Rightarrow> float64 \<Rightarrow> float64" where
  "fsub a b = fadd a (fneg b)"

fun fmul :: "float64 \<Rightarrow> float64 \<Rightarrow> float64" where
  "fmul NaN _ = NaN"
| "fmul _ NaN = NaN"
| "fmul (Fin a) (Fin b) = Fin (a * b)"
| "fmul (Fin a) PInf = (if a = 0 then NaN else if 0 < a then PInf else NInf)"
| "fmul (Fin a) NInf = (if a = 0 then NaN else if 0 < a then NInf else PInf)"
| "fmul PInf (Fin b) = (if b = 0 then NaN else if 0 < b then PInf else NInf)"
| "fmul NInf (Fin b) = (if b = 0 then NaN else if 0 < b then NInf else PInf)"
| "fmul PInf PInf = PInf"
| "fmul PInf NInf = NInf"
| "fmul NInf PInf = NInf"
| "fmul NInf NInf = PInf"

fun fdiv :: "float64 \<Rightarrow> float64 \<Rightarrow> float64" where
  "fdiv NaN _ = NaN"
| "fdiv _ NaN = NaN"
| "fdiv (Fin a) (Fin b) =
     (if b = 0 then (if a = 0 then NaN else if 0 < a then PInf else NInf)
      else Fin (a / b))"
| "fdiv (Fin a) _ = Fin 0"
| "fdiv PInf (Fin b) = (if b < 0 then NInf else PInf)"
| "fdiv NInf (Fin b) = (if b < 0 then PInf else NInf)"
| "fdiv _ _ = NaN"

fun flt :: "float64 \<Rightarrow> float64 \<Rightarrow> bool" where
  "flt NaN _ = False"
| "flt _ NaN = False"
| "flt (Fin a) (Fin b) = (a < b)"
| "flt NInf NInf = False"
| "flt NInf _ = True"
| "flt PInf _ = False"
| "flt (Fin a) PInf = True"
| "flt (Fin a) NInf = False"

definition fgt :: "float64 \<Rightarrow> float64 \<Rightarrow> bool" where
  "fgt a b = flt b a"

text \<open>The constants and functions of Go's \<^verbatim>\<open>math\<close> package that the filter calls.\<close>

definition math_Pi :: float64 where
  "math_Pi = Fin pi"


fun math_Cos :: "float64 \<Rightarrow> float64" where
  "math_Cos (Fin a) = Fin (cos a)"
| "math_Cos _ = NaN"

fun math_Sin :: "float64 \<Rightarrow> float64" where
  "math_Sin (Fin a) = Fin (sin a)"
| "math_Sin _ = NaN"





text \<open>
  Conversions between \<^verbatim>\<open>int\<close> and \<^verbatim>\<open>float64\<close>. Go's \<^verbatim>\<open>int\<close> is modelled as an unbounded
  integer. \<^verbatim>\<open>int(f)\<close> discards the fraction; for a value that a 64-bit integer cannot
  represent the result is implementation-dependent, and the model returns what amd64
  returns, the least 64-bit integer.
\<close>

definition float64_of_int :: "int \<Rightarrow> float64" where
  "float64_of_int n = Fin (of_int n)"

definition trunc_to_zero :: "real \<Rightarrow> int" where
  "trunc_to_zero r = (if 0 \<le> r then \<lfloor>r\<rfloor> else \<lceil>r\<rceil>)"

fun int_of_float64 :: "float64 \<Rightarrow> int" where
  "int_of_float64 (Fin r) =
     (let t = trunc_to_zero r
      in if - (2 ^ 63) \<le> t \<and> t < 2 ^ 63 then t else - (2 ^ 63))"
| "int_of_float64 _ = - (2 ^ 63)"

section \<open>Run-time panics and the random source\<close>

datatype error = IndexOutOfRange | IntegerDivideByZero | InvalidArgumentToIntn

text \<open>Indexing a slice with an \<^verbatim>\<open>int\<close> panics outside \<^verbatim>\<open>[0, len)\<close>.\<close>

definition index :: "'a list \<Rightarrow> int \<Rightarrow> error + 'a" where
  "index xs i = (if 0 \<le> i \<and> i < int (length xs) then Inr (xs ! nat i) else Inl IndexOutOfRange)"

text \<open>Go's \<^verbatim>\<open>%\<close> truncates towards zero and panics on a zero divisor.\<close>

definition go_rem :: "int \<Rightarrow> int \<Rightarrow> error + int" where
  "go_rem a b = (if b = 0 then Inl IntegerDivideByZero else Inr (a smod b))"

text \<open>
  The package-level random source of \<^verbatim>\<open>math/rand\<close> is an input of the model: the stream
  of values that the successive calls of \<^verbatim>\<open>rand.Float64()\<close> return (each is a finite
  number; the library promises \<^verbatim>\<open>[0, 1)\<close>, which theorems assume where they need it),
  the stream of natural numbers from which \<^verbatim>\<open>rand.Intn(n)\<close> takes its result modulo
  \<^verbatim>\<open>n\<close> (so that it ranges over exactly \<^verbatim>\<open>[0, n)\<close>), and the stream of standard normal
  deviates that \<^verbatim>\<open>distuv.Normal.Rand()\<close> scales.
\<close>

record rng =
  float64s :: "real stream"
  intns :: "nat stream"
  normals :: "real stream"

definition rand_Float64 :: "rng \<Rightarrow> float64 \<times> rng" where
  "rand_Float64 g = (Fin (shd (float64s g)), g\<lparr>float64s := stl (float64s g)\<rparr>)"

definition rand_Intn :: "int \<Rightarrow> rng \<Rightarrow> error + (int \<times> rng)" where
  "rand_Intn n g =
     (if n \<le> 0 then Inl InvalidArgumentToIntn
      else Inr (int (shd (intns g)) mod n, g\<lparr>intns := stl (intns g)\<rparr>))"

record Normal =
  Mu :: float64
  Sigma_d :: float64

text \<open>\<^verbatim>\<open>distuv.Normal.Rand()\<close> returns \<^verbatim>\<open>rnd*n.Sigma + n.Mu\<close> for a standard normal \<^verbatim>\<open>rnd\<close>.\<close>

definition Normal_Rand :: "Normal \<Rightarrow> rng \<Rightarrow> float64 \<times> rng" where
  "Normal_Rand n g =
     (fadd (fmul (Fin (shd (normals g))) (Sigma_d n)) (Mu n), g\<lparr>normals := stl (normals g)\<rparr>)"

section \<open>Particles\<close>

record Particle =
  X :: float64
  Y :: float64
  Heading :: float64
  Weight :: float64

definition UpdateWeight :: "Particle \<Rightarrow> float64 \<Rightarrow> Particle" where
  "UpdateWeight p weight = p\<lparr>Weight := weight\<rparr>"

text \<open>
  The heading normalisation that \<^verbatim>\<open>Particle.Move\<close> and the resampling jitter both perform:
  one addition or one subtraction of \<^verbatim>\<open>2.0 * math.Pi\<close>.
\<close>

definition wrap_once :: "float64 \<Rightarrow> float64" where
  "wrap_once h =
     (if flt h (Fin 0) then fadd h (fmul (Fin 2) math_Pi)
      else if fgt h (fmul (Fin 2) math_Pi) then fsub h (fmul (Fin 2) math_Pi)
      else h)"

definition Particle_Move :: "Particle \<Rightarrow> float64 \<Rightarrow> float64 \<Rightarrow> Particle" where
  "Particle_Move p dst ang =
     (let p1 = p\<lparr>Heading := wrap_once (fadd (Heading p) ang)\<rparr>;
          p2 = p1\<lparr>X := fadd (X p1) (fmul dst (math_Cos (Heading p1)))\<rparr>
      in p2\<lparr>Y := fadd (Y p2) (fmul dst (math_Sin (Heading p2)))\<rparr>)"

section \<open>The weight kernel\<close>


section \<open>The particle filter\<close>

text \<open>
  The population is a slice of pointers to particles. Every pointer in it is to a particle
  allocated for that slot alone (\<^verbatim>\<open>createSampleList\<close> and \<^verbatim>\<open>ResampleAndFuzz\<close> append the
  address of a fresh variable), so the slice is modelled as the list of the particles.
\<close>

record ParticleFilter =
  numSamples :: int
  percentResample :: float64
  listParticles :: "Particle list"
  xMin :: float64
  xMax :: float64
  yMin :: float64
  yMax :: float64
  EstimatedX :: float64
  EstimatedY :: float64
  EstimatedHeading :: float64
  maxWeight :: float64
  sumWeight :: float64
  iteration :: int
  locDistribution :: Normal
  angDistribution :: Normal
  distDistribution :: Normal

definition checkAndSetMaxWeight :: "ParticleFilter \<Rightarrow> float64 \<Rightarrow> bool \<Rightarrow> ParticleFilter" where
  "checkAndSetMaxWeight pf weight override =
     (let pf1 = (if fgt weight (maxWeight pf) then pf\<lparr>maxWeight := weight\<rparr> else pf)
      in if override then pf1\<lparr>maxWeight := weight\<rparr> else pf1)"

definition createParticle :: "ParticleFilter \<Rightarrow> rng \<Rightarrow> Particle \<times> rng" where
  "createParticle pf g =
     (let xRange = fsub (xMax pf) (xMax pf);
          yRange = fsub (yMax pf) (yMin pf);
          (u, g1) = rand_Float64 g;
          x = fadd (xMin pf) (fmul xRange u);
          (v, g2) = rand_Float64 g1;
          y = fadd (yMin pf) (fmul yRange v);
          (w, g3) = rand_Float64 g2;
          hdg = fmul (fmul w (Fin 2)) math_Pi
      in (\<lparr>X = x, Y = y, Heading = hdg, Weight = Fin 0\<rparr>, g3))"

text \<open>The loop of \<^verbatim>\<open>createSampleList\<close>; the first argument counts the iterations left.\<close>

fun createSampleList_loop :: "nat \<Rightarrow> ParticleFilter \<Rightarrow> rng \<Rightarrow> ParticleFilter \<times> rng" where
  "createSampleList_loop 0 pf g = (pf, g)"
| "createSampleList_loop (Suc k) pf g =
     (let (p, g1) = createParticle pf g
      in createSampleList_loop k (pf\<lparr>listParticles := listParticles pf @ [p]\<rparr>) g1)"

definition createSampleList :: "ParticleFilter \<Rightarrow> rng \<Rightarrow> ParticleFilter \<times> rng" where
  "createSampleList pf g = createSampleList_loop (nat (numSamples pf)) pf g"

text \<open>
  \<^verbatim>\<open>CreatePF\<close> fills in the fields of its composite literal; the others, the four bounds of
  the spatial domain among them, keep Go's zero value. The four bound parameters are not
  used.
\<close>

definition CreatePF ::
  "int \<Rightarrow> float64 \<Rightarrow> float64 \<Rightarrow> float64 \<Rightarrow> float64 \<Rightarrow> float64 \<Rightarrow> float64 \<Rightarrow> float64 \<Rightarrow> float64
     \<Rightarrow> rng \<Rightarrow> ParticleFilter \<times> rng" where
  "CreatePF numSamps percResamp xmin xmax ymin ymax locError distError angError g =
     createSampleList
       \<lparr>numSamples = numSamps, percentResample = percResamp, listParticles = [],
        xMin = Fin 0, xMax = Fin 0, yMin = Fin 0, yMax = Fin 0,
        EstimatedX = Fin 0, EstimatedY = Fin 0, EstimatedHeading = Fin 0,
        maxWeight = Fin 0, sumWeight = Fin 0, iteration = 0,
        locDistribution = \<lparr>Mu = Fin 0, Sigma_d = locError\<rparr>,
        angDistribution = \<lparr>Mu = Fin 0, Sigma_d = angError\<rparr>,
        distDistribution = \<lparr>Mu = Fin 0, Sigma_d = distError\<rparr>\<rparr> g"

subsection \<open>Weighting\<close>

text \<open>
  A reading is its \<^verbatim>\<open>CalculateWeight\<close> method, which receives a copy of the particle.
  The loop ranges over the indices of the population (\<^verbatim>\<open>for i := range\<close>), so that the
  index is inside the slice wherever it is read: \<open>i\<close> is the index, the first argument
  the number of iterations left.
\<close>

fun CalculateWeights_loop ::
  "nat \<Rightarrow> nat \<Rightarrow> (Particle \<Rightarrow> float64) \<Rightarrow> ParticleFilter \<Rightarrow> ParticleFilter" where
  "CalculateWeights_loop 0 i r pf = pf"
| "CalculateWeights_loop (Suc k) i r pf =
     (let p = listParticles pf ! i;
          newWeight = r p;
          pf1 = checkAndSetMaxWeight pf newWeight False;
          pf2 = pf1\<lparr>listParticles := (listParticles pf1)[i := UpdateWeight p newWeight]\<rparr>
      in CalculateWeights_loop k (Suc i) r (pf2\<lparr>sumWeight := fadd (sumWeight pf2) newWeight\<rparr>))"

definition CalculateWeights :: "ParticleFilter \<Rightarrow> (Particle \<Rightarrow> float64) \<Rightarrow> ParticleFilter" where
  "CalculateWeights pf r =
     (let pf1 = checkAndSetMaxWeight pf (Fin 0) True;
          pf2 = pf1\<lparr>sumWeight := Fin 0\<rparr>
      in CalculateWeights_loop (length (listParticles pf2)) 0 r pf2)"

subsection \<open>Resampling\<close>

text \<open>The normalisation loop: it indexes the population up to \<^verbatim>\<open>numSamples\<close>.\<close>

fun normalize_loop :: "nat \<Rightarrow> nat \<Rightarrow> ParticleFilter \<Rightarrow> error + ParticleFilter" where
  "normalize_loop 0 i pf = Inr pf"
| "normalize_loop (Suc k) i pf =
     (case index (listParticles pf) (int i) of
        Inl e \<Rightarrow> Inl e
      | Inr p \<Rightarrow>
          normalize_loop k (Suc i)
            (pf\<lparr>listParticles :=
                 (listParticles pf)[i := UpdateWeight p (fdiv (Weight p) (sumWeight pf))]\<rparr>))"

text \<open>
  The variables that the resampling loops update: the three sums, the new population and
  the random source.
\<close>

record resample_acc =
  xLoc :: float64
  yLoc :: float64
  heading :: float64
  newParticleList :: "Particle list"
  src :: rng

text \<open>The body of \<^verbatim>\<open>if p.Weight > beta\<close>: the jittered copy of the particle.\<close>

definition fuzz :: "ParticleFilter \<Rightarrow> Particle \<Rightarrow> resample_acc \<Rightarrow> resample_acc" where
  "fuzz pf p acc =
     (let (n1, g1) = Normal_Rand (locDistribution pf) (src acc);
          newX = fadd (X p) n1;
          (n2, g2) = Normal_Rand (locDistribution pf) g1;
          newY = fadd (Y p) n2;
          (n3, g3) = Normal_Rand (angDistribution pf) g2;
          newHeading = wrap_once (fadd (Heading p) n3);
          newP = \<lparr>X = newX, Y = newY, Heading = newHeading, Weight = Fin 0\<rparr>
      in acc\<lparr>xLoc := fadd (xLoc acc) newX, yLoc := fadd (yLoc acc) newY,
             heading := fadd (heading acc) newHeading,
             newParticleList := newParticleList acc @ [newP], src := g3\<rparr>)"

text \<open>
  The inner loop \<^verbatim>\<open>for beta > 0\<close>. Nothing bounds it, so it is a partial function:
  \<open>None\<close> is a walk that never ends, \<open>Some (Inl e)\<close> a panic.
\<close>

partial_function (option) wheel ::
  "ParticleFilter \<Rightarrow> float64 \<Rightarrow> int \<Rightarrow> resample_acc \<Rightarrow> (error + resample_acc) option" where
  "wheel pf beta startIdx acc =
     (if fgt beta (Fin 0) then
        (case index (listParticles pf) startIdx of
           Inl e \<Rightarrow> Some (Inl e)
         | Inr p \<Rightarrow>
             (case go_rem (startIdx + 1) (numSamples pf) of
                Inl e \<Rightarrow> Some (Inl e)
              | Inr j \<Rightarrow>
                  wheel pf (fsub beta (Weight p)) j
                    (if fgt (Weight p) beta then fuzz pf p acc else acc)))
      else Some (Inr acc))"

text \<open>The outer loop, \<^verbatim>\<open>numIntResample\<close> draws; the third argument counts those left.\<close>

fun resample_loop ::
  "ParticleFilter \<Rightarrow> int \<Rightarrow> nat \<Rightarrow> resample_acc \<Rightarrow> (error + resample_acc) option" where
  "resample_loop pf numIntResample 0 acc = Some (Inr acc)"
| "resample_loop pf numIntResample (Suc k) acc =
     (let (u, g1) = rand_Float64 (src acc);
          beta = fmul (fmul u (maxWeight pf)) (Fin 2)
      in case rand_Intn numIntResample g1 of
           Inl e \<Rightarrow> Some (Inl e)
         | Inr (startIdx, g2) \<Rightarrow>
             (case wheel pf beta startIdx (acc\<lparr>src := g2\<rparr>) of
                None \<Rightarrow> None
              | Some (Inl e) \<Rightarrow> Some (Inl e)
              | Some (Inr acc1) \<Rightarrow> resample_loop pf numIntResample k acc1))"

text \<open>The refill loop, \<^verbatim>\<open>numSpoof\<close> fresh particles.\<close>

fun refill_loop :: "nat \<Rightarrow> ParticleFilter \<Rightarrow> Particle list \<Rightarrow> rng \<Rightarrow> Particle list \<times> rng" where
  "refill_loop 0 pf ps g = (ps, g)"
| "refill_loop (Suc k) pf ps g =
     (let (p, g1) = createParticle pf g in refill_loop k pf (ps @ [p]) g1)"

definition ResampleAndFuzz ::
  "ParticleFilter \<Rightarrow> rng \<Rightarrow> (error + ParticleFilter \<times> rng) option" where
  "ResampleAndFuzz pf g =
     (let pf1 = pf\<lparr>iteration := iteration pf + 1\<rparr>;
          numResample = fmul (float64_of_int (numSamples pf1)) (percentResample pf1);
          numIntResample = int_of_float64 numResample;
          numSpoof = numSamples pf1 - numIntResample
      in case normalize_loop (nat (numSamples pf1)) 0 pf1 of
           Inl e \<Rightarrow> Some (Inl e)
         | Inr pf2 \<Rightarrow>
             (case resample_loop pf2 numIntResample (nat numIntResample)
                     \<lparr>xLoc = Fin 0, yLoc = Fin 0, heading = Fin 0,
                      newParticleList = [], src = g\<rparr> of
                None \<Rightarrow> None
              | Some (Inl e) \<Rightarrow> Some (Inl e)
              | Some (Inr acc) \<Rightarrow>
                  (let pf3 = pf2\<lparr>EstimatedX := fdiv (xLoc acc) (float64_of_int numIntResample),
                                 EstimatedY := fdiv (yLoc acc) (float64_of_int numIntResample),
                                 EstimatedHeading :=
                                   fdiv (heading acc) (float64_of_int numIntResample)\<rparr>;
                       (ps, g1) = refill_loop (nat numSpoof) pf3 (newParticleList acc) (src acc)
                   in Some (Inr (pf3\<lparr>listParticles := ps\<rparr>, g1)))))"

subsection \<open>Motion\<close>

text \<open>
  The loop of \<^verbatim>\<open>ParticleFilter.Move\<close>, with the sums of the headings and coordinates. The
  arguments of \<^verbatim>\<open>particle.Move\<close> are evaluated from left to right: the distance noise is
  drawn first.
\<close>

fun Move_loop ::
  "nat \<Rightarrow> nat \<Rightarrow> float64 \<Rightarrow> float64 \<Rightarrow> ParticleFilter \<Rightarrow> float64 \<times> float64 \<times> float64 \<Rightarrow> rng
     \<Rightarrow> error + (ParticleFilter \<times> (float64 \<times> float64 \<times> float64) \<times> rng)" where
  "Move_loop 0 i dst ang pf tot g = Inr (pf, tot, g)"
| "Move_loop (Suc k) i dst ang pf (hsum, xsum, ysum) g =
     (case index (listParticles pf) (int i) of
        Inl e \<Rightarrow> Inl e
      | Inr p \<Rightarrow>
          (let (nd, g1) = Normal_Rand (distDistribution pf) g;
               (na, g2) = Normal_Rand (angDistribution pf) g1;
               particle = Particle_Move p (fadd dst nd) (fadd ang na)
           in Move_loop k (Suc i) dst ang
                (pf\<lparr>listParticles := (listParticles pf)[i := particle]\<rparr>)
                (fadd hsum (Heading particle), fadd xsum (X particle), fadd ysum (Y particle))
                g2))"

definition Move ::
  "ParticleFilter \<Rightarrow> float64 \<Rightarrow> float64 \<Rightarrow> rng \<Rightarrow> error + (ParticleFilter \<times> rng)" where
  "Move pf dst ang g =
     (case Move_loop (nat (numSamples pf)) 0 dst ang pf (Fin 0, Fin 0, Fin 0) g of
        Inl e \<Rightarrow> Inl e
      | Inr (pf1, (hsum, xsum, ysum), g1) \<Rightarrow>
          (let divisor = fmul (float64_of_int (numSamples pf1)) (percentResample pf1)
           in Inr (pf1\<lparr>EstimatedX := fdiv xsum divisor,
                       EstimatedY := fdiv ysum divisor,
                       EstimatedHeading := fdiv hsum divisor\<rparr>, g1)))"

definition GetPosition :: "ParticleFilter \<Rightarrow> float64 \<times> float64" where
  "GetPosition pf = (EstimatedX pf, EstimatedY pf)"

definition GetHeading :: "ParticleFilter \<Rightarrow> float64" where
  "GetHeading pf = EstimatedHeading pf"

definition Update ::
  "ParticleFilter \<Rightarrow> (Particle \<Rightarrow> float64) \<Rightarrow> rng \<Rightarrow> (error + ParticleFilter \<times> rng) option" where
  "Update pf r g = ResampleAndFuzz (CalculateWeights pf r) g"

section \<open>Predicates of the properties\<close>






section \<open>Example inputs\<close>

text \<open>
  A random source that returns the same values for ever, a particle with finite fields,
  and a filter over a given population with the domain \<open>[0, 10] \<times> [0, 10]\<close>.
\<close>

definition constant_rng :: "real \<Rightarrow> nat \<Rightarrow> real \<Rightarrow> rng" where
  "constant_rng u n z = \<lparr>float64s = sconst u, intns = sconst n, normals = sconst z\<rparr>"

definition particle_at :: "real \<Rightarrow> real \<Rightarrow> real \<Rightarrow> real \<Rightarrow> Particle" where
  "particle_at x y h w = \<lparr>X = Fin x, Y = Fin y, Heading = Fin h, Weight = Fin w\<rparr>"

definition example_filter :: "Particle list \<Rightarrow> real \<Rightarrow> real \<Rightarrow> real \<Rightarrow> ParticleFilter" where
  "example_filter ps fraction maxW sumW =
     \<lparr>numSamples = int (length ps), percentResample = Fin fraction, listParticles = ps,
      xMin = Fin 0, xMax = Fin 10, yMin = Fin 0, yMax = Fin 10,
      EstimatedX = Fin 0, EstimatedY = Fin 0, EstimatedHeading = Fin 0,
      maxWeight = Fin maxW, sumWeight = Fin sumW, iteration = 0,
      locDistribution = \<lparr>Mu = Fin 0, Sigma_d = Fin (1 / 10)\<rparr>,
      angDistribution = \<lparr>Mu = Fin 0, Sigma_d = Fin (1 / 10)\<rparr>,
      distDistribution = \<lparr>Mu = Fin 0, Sigma_d = Fin (1 / 10)\<rparr>\<rparr>"

lemmas rng_simps = constant_rng_def rand_Float64_def rand_Intn_def Normal_Rand_def

section \<open>The weight kernel: peak and symmetry\<close>






section \<open>The weighting pass\<close>

lemma checkAndSetMaxWeight_False:
  "checkAndSetMaxWeight pf w False =
     pf\<lparr>maxWeight := (if fgt w (maxWeight pf) then w else maxWeight pf)\<rparr>"
  by (simp add: checkAndSetMaxWeight_def)

lemma checkAndSetMaxWeight_True:
  "checkAndSetMaxWeight pf w True = pf\<lparr>maxWeight := w\<rparr>"
  by (simp add: checkAndSetMaxWeight_def)

text \<open>
  The loop from index \<open>i\<close> to the end of the population: the particles from \<open>i\<close> on get
  their new weight, and the two aggregates are folded over the new weights in order.
\<close>

lemma CalculateWeights_loop_eq:
  "i + k = length (listParticles pf) \<Longrightarrow>
   CalculateWeights_loop k i r pf =
     pf\<lparr>listParticles :=
          take i (listParticles pf) @ map (\<lambda>p. UpdateWeight p (r p)) (drop i (listParticles pf)),
        maxWeight :=
          foldl (\<lambda>m w. if fgt w m then w else m) (maxWeight pf) (map r (drop i (listParticles pf))),
        sumWeight := foldl fadd (sumWeight pf) (map r (drop i (listParticles pf)))\<rparr>"
proof (induction k arbitrary: i pf)
  case 0
  then show ?case by simp
next
  case (Suc k)
  let ?ps = "listParticles pf"
  from Suc.prems have i: "i < length ?ps" by simp
  have d: "drop i ?ps = ?ps ! i # drop (Suc i) ?ps"
    using i by (simp add: Cons_nth_drop_Suc)
  show ?case
    using i Suc.prems
    by (simp add: Let_def checkAndSetMaxWeight_False Suc.IH d take_Suc_conv_app_nth)
qed

lemma CalculateWeights_eq:
  "CalculateWeights pf r =
     pf\<lparr>listParticles := map (\<lambda>p. UpdateWeight p (r p)) (listParticles pf),
        maxWeight := foldl (\<lambda>m w. if fgt w m then w else m) (Fin 0) (map r (listParticles pf)),
        sumWeight := foldl fadd (Fin 0) (map r (listParticles pf))\<rparr>"
  by (simp add: CalculateWeights_def Let_def checkAndSetMaxWeight_True CalculateWeights_loop_eq)

lemma foldl_fadd_Fin:
  "\<forall>x\<in>set xs. r x = Fin (w x) \<Longrightarrow>
   foldl fadd (Fin a) (map r xs) = Fin (a + sum_list (map w xs))"
  by (induction xs arbitrary: a) (simp_all add: add.assoc)

lemma foldl_max_Fin:
  "\<forall>x\<in>set xs. r x = Fin (w x) \<Longrightarrow>
   foldl (\<lambda>m v. if fgt v m then v else m) (Fin a) (map r xs) = Fin (fold max (map w xs) a)"
proof (induction xs arbitrary: a)
  case Nil
  then show ?case by simp
next
  case (Cons x xs)
  have "(if w x > a then w x else a) = max (w x) a" by (simp add: max_def)
  with Cons show ?case by (simp add: fgt_def)
qed

text \<open>
  Claim C10. \<^verbatim>\<open>CalculateWeights\<close> changes the weights of the particles and the two
  aggregates \<^verbatim>\<open>maxWeight\<close> and \<^verbatim>\<open>sumWeight\<close>, and nothing else: the coordinates and the
  heading of every particle, the length of the population, the estimated pose and the
  iteration counter are what they were, and the filter after the call is the filter
  before it with the population (each particle in its place, with its new weight) and the
  two aggregates replaced.
\<close>

theorem CalculateWeights_frame:
  "map X (listParticles (CalculateWeights pf r)) = map X (listParticles pf)
   \<and> map Y (listParticles (CalculateWeights pf r)) = map Y (listParticles pf)
   \<and> map Heading (listParticles (CalculateWeights pf r)) = map Heading (listParticles pf)
   \<and> length (listParticles (CalculateWeights pf r)) = length (listParticles pf)
   \<and> EstimatedX (CalculateWeights pf r) = EstimatedX pf
   \<and> EstimatedY (CalculateWeights pf r) = EstimatedY pf
   \<and> EstimatedHeading (CalculateWeights pf r) = EstimatedHeading pf
   \<and> iteration (CalculateWeights pf r) = iteration pf
   \<and> CalculateWeights pf r =
       pf\<lparr>listParticles := map (\<lambda>p. p\<lparr>Weight := r p\<rparr>) (listParticles pf),
          maxWeight := maxWeight (CalculateWeights pf r),
          sumWeight := sumWeight (CalculateWeights pf r)\<rparr>"
  by (simp add: CalculateWeights_eq UpdateWeight_def comp_def)

text \<open>
  Claim C7. After \<^verbatim>\<open>CalculateWeights(r)\<close> the weight of every particle is the likelihood
  that \<open>r\<close> gives to the particle as it was before the pass. When the likelihoods are
  finite, \<^verbatim>\<open>sumWeight\<close> is their sum and \<^verbatim>\<open>maxWeight\<close> is the greatest of 0 and the
  likelihoods, whatever \<^verbatim>\<open>maxWeight\<close> was before the pass; for a non-empty population and
  likelihoods that are not negative, that is the maximum of the likelihoods.
\<close>

theorem CalculateWeights_weights_sum_max:
  assumes fin: "\<forall>p\<in>set (listParticles pf). r p = Fin (w p)"
  shows "map Weight (listParticles (CalculateWeights pf r)) = map r (listParticles pf)
    \<and> sumWeight (CalculateWeights pf r) = Fin (sum_list (map w (listParticles pf)))
    \<and> maxWeight (CalculateWeights pf r) = Fin (Max (insert 0 (w ` set (listParticles pf))))
    \<and> (listParticles pf \<noteq> [] \<and> (\<forall>p\<in>set (listParticles pf). 0 \<le> w p) \<longrightarrow>
         maxWeight (CalculateWeights pf r) = Fin (Max (w ` set (listParticles pf))))"
proof -
  let ?ps = "listParticles pf"
  have m: "maxWeight (CalculateWeights pf r) = Fin (Max (insert 0 (w ` set ?ps)))"
    using foldl_max_Fin [OF fin, of 0] Max.set_eq_fold [of 0 "map w ?ps"]
    by (simp add: CalculateWeights_eq)
  have s: "sumWeight (CalculateWeights pf r) = Fin (sum_list (map w ?ps))"
    using foldl_fadd_Fin [OF fin, of 0] by (simp add: CalculateWeights_eq)
  have l: "map Weight (listParticles (CalculateWeights pf r)) = map r ?ps"
    by (simp add: CalculateWeights_eq UpdateWeight_def comp_def)
  have "Max (insert 0 (w ` set ?ps)) = Max (w ` set ?ps)"
    if ne: "?ps \<noteq> []" and pos: "\<forall>p\<in>set ?ps. 0 \<le> w p"
  proof -
    from ne obtain p where p: "p \<in> set ?ps" by (cases ?ps) auto
    have "w p \<le> Max (w ` set ?ps)"
      using p by (intro Max_ge) auto
    moreover have "0 \<le> w p" using p pos by blast
    ultimately have "0 \<le> Max (w ` set ?ps)" by linarith
    then show ?thesis using ne by (simp add: max_def)
  qed
  with m s l show ?thesis by simp
qed

text \<open>
  The theorem at a filter of two particles whose stale \<^verbatim>\<open>maxWeight\<close> is 5, with the
  reading that scores a particle by its \<open>x\<close> coordinate (1 and 3).
\<close>

theorem CalculateWeights_weights_sum_max_witness:
  "map Weight (listParticles
         (CalculateWeights (example_filter [particle_at 1 0 0 0, particle_at 3 0 0 0] 1 5 5) X))
       = [Fin 1, Fin 3]
   \<and> sumWeight (CalculateWeights (example_filter [particle_at 1 0 0 0, particle_at 3 0 0 0] 1 5 5) X)
       = Fin 4
   \<and> maxWeight (CalculateWeights (example_filter [particle_at 1 0 0 0, particle_at 3 0 0 0] 1 5 5) X)
       = Fin 3"
  using CalculateWeights_weights_sum_max
    [of "example_filter [particle_at 1 0 0 0, particle_at 3 0 0 0] 1 5 5" X
        "\<lambda>p. case X p of Fin a \<Rightarrow> a | _ \<Rightarrow> 0"]
  by (simp add: example_filter_def particle_at_def)

section \<open>Construction\<close>

lemma createSampleList_loop_frame:
  "fst (createSampleList_loop k pf g) =
     pf\<lparr>listParticles := listParticles (fst (createSampleList_loop k pf g))\<rparr>
   \<and> length (listParticles (fst (createSampleList_loop k pf g))) = length (listParticles pf) + k"
proof (induction k arbitrary: pf g)
  case 0
  then show ?case by simp
next
  case (Suc k)
  obtain p g1 where c: "createParticle pf g = (p, g1)" by (cases "createParticle pf g")
  from Suc [of "pf\<lparr>listParticles := listParticles pf @ [p]\<rparr>" g1]
  show ?case
    by (simp add: c)
qed

text \<open>
  Claim C6, at a failing input. On a filter whose domain is \<open>[0, 10] \<times> [0, 10]\<close>, with
  the random source returning 1/2, \<^verbatim>\<open>createParticle\<close> returns \<open>x = 0\<close> (the range of \<open>x\<close>
  is \<^verbatim>\<open>xMax - xMax\<close>), where the claim has \<open>x = 0 + (10 - 0) * 1/2 = 5\<close>; \<open>y\<close> is 5. And
  \<^verbatim>\<open>CreatePF\<close> with the same domain does not store the four bounds, so that every particle
  of the initial population is at \<open>(0, 0)\<close>.
\<close>

theorem createParticle_x_range_is_zero:
  "createParticle (example_filter [] 1 0 0) (constant_rng (1 / 2) 0 0)
     = (\<lparr>X = Fin 0, Y = Fin 5, Heading = Fin pi, Weight = Fin 0\<rparr>, constant_rng (1 / 2) 0 0)
   \<and> listParticles (fst (CreatePF 2 (Fin 1) (Fin 0) (Fin 10) (Fin 0) (Fin 10)
         (Fin (1 / 10)) (Fin (1 / 10)) (Fin (1 / 10)) (constant_rng (1 / 2) 0 0)))
     = [\<lparr>X = Fin 0, Y = Fin 0, Heading = Fin pi, Weight = Fin 0\<rparr>,
        \<lparr>X = Fin 0, Y = Fin 0, Heading = Fin pi, Weight = Fin 0\<rparr>]"
  by (simp add: createParticle_def example_filter_def rng_simps fsub_def math_Pi_def
      CreatePF_def createSampleList_def numeral_2_eq_2)

text \<open>
  Claim C8 as stated fails: \<^verbatim>\<open>CreatePF\<close> with \<^verbatim>\<open>numSamples = 0\<close>, a resample fraction of 2
  and the three sigmas \<open>-1\<close> returns a filter, with these values in its fields.
\<close>

theorem CreatePF_invalid_configuration_returns_filter:
  "CreatePF 0 (Fin 2) (Fin 0) (Fin 10) (Fin 0) (Fin 10) (Fin (- 1)) (Fin (- 1)) (Fin (- 1))
      (constant_rng 0 0 0)
     = (\<lparr>numSamples = 0, percentResample = Fin 2, listParticles = [],
         xMin = Fin 0, xMax = Fin 0, yMin = Fin 0, yMax = Fin 0,
         EstimatedX = Fin 0, EstimatedY = Fin 0, EstimatedHeading = Fin 0,
         maxWeight = Fin 0, sumWeight = Fin 0, iteration = 0,
         locDistribution = \<lparr>Mu = Fin 0, Sigma_d = Fin (- 1)\<rparr>,
         angDistribution = \<lparr>Mu = Fin 0, Sigma_d = Fin (- 1)\<rparr>,
         distDistribution = \<lparr>Mu = Fin 0, Sigma_d = Fin (- 1)\<rparr>\<rparr>, constant_rng 0 0 0)"
  by (simp add: CreatePF_def createSampleList_def)

text \<open>
  Claim C8, amended. \<^verbatim>\<open>CreatePF\<close> validates nothing: for all arguments it returns a
  filter that records the number of samples, the resample fraction and the three sigmas
  as they were given, with a population of \<open>max numSamps 0\<close> particles and the iteration
  counter at 0.
\<close>

theorem CreatePF_no_validation:
  "numSamples (fst (CreatePF n pr a b c d le de ae g)) = n
   \<and> percentResample (fst (CreatePF n pr a b c d le de ae g)) = pr
   \<and> length (listParticles (fst (CreatePF n pr a b c d le de ae g))) = nat n
   \<and> Sigma_d (locDistribution (fst (CreatePF n pr a b c d le de ae g))) = le
   \<and> Sigma_d (distDistribution (fst (CreatePF n pr a b c d le de ae g))) = de
   \<and> Sigma_d (angDistribution (fst (CreatePF n pr a b c d le de ae g))) = ae
   \<and> iteration (fst (CreatePF n pr a b c d le de ae g)) = 0"
proof -
  let ?pf0 = "\<lparr>numSamples = n, percentResample = pr, listParticles = [],
        xMin = Fin 0, xMax = Fin 0, yMin = Fin 0, yMax = Fin 0,
        EstimatedX = Fin 0, EstimatedY = Fin 0, EstimatedHeading = Fin 0,
        maxWeight = Fin 0, sumWeight = Fin 0, iteration = 0,
        locDistribution = \<lparr>Mu = Fin 0, Sigma_d = le\<rparr>,
        angDistribution = \<lparr>Mu = Fin 0, Sigma_d = ae\<rparr>,
        distDistribution = \<lparr>Mu = Fin 0, Sigma_d = de\<rparr>\<rparr>"
  have c: "fst (CreatePF n pr a b c d le de ae g) = fst (createSampleList_loop (nat n) ?pf0 g)"
    by (simp add: CreatePF_def createSampleList_def)
  have f: "fst (createSampleList_loop (nat n) ?pf0 g) =
      ?pf0\<lparr>listParticles := listParticles (fst (createSampleList_loop (nat n) ?pf0 g))\<rparr>"
    and l: "length (listParticles (fst (createSampleList_loop (nat n) ?pf0 g))) = nat n"
    using createSampleList_loop_frame [of "nat n" ?pf0 g] by simp_all
  note fields =
    arg_cong [OF f, of numSamples] arg_cong [OF f, of percentResample]
    arg_cong [OF f, of locDistribution] arg_cong [OF f, of distDistribution]
    arg_cong [OF f, of angDistribution] arg_cong [OF f, of iteration]
  show ?thesis
    unfolding c using fields l by simp
qed

section \<open>Motion\<close>

lemma wrap_once_zero: "wrap_once (Fin 0) = Fin 0"
  by (simp add: wrap_once_def math_Pi_def fgt_def)

text \<open>
  Claim C2, at a failing input. The filter that \<^verbatim>\<open>CreatePF(2, 0.5, ...)\<close> returns has its
  two particles at the origin with heading 0 (the random source returns 0); \<^verbatim>\<open>Move(1, 0)\<close>
  without noise brings both to \<open>x = 1\<close>, whose mean is 1, and sets \<^verbatim>\<open>EstimatedX\<close> to
  \<open>(1 + 1) / (2 * 0.5) = 2\<close>.
\<close>

theorem Move_estimate_not_mean:
  "map_sum id (\<lambda>(pf, g). (map X (listParticles pf), EstimatedX pf))
     (Move (fst (CreatePF 2 (Fin (1 / 2)) (Fin 0) (Fin 10) (Fin 0) (Fin 10)
               (Fin (1 / 10)) (Fin (1 / 10)) (Fin (1 / 10)) (constant_rng 0 0 0)))
        (Fin 1) (Fin 0) (constant_rng 0 0 0))
   = Inr ([Fin 1, Fin 1], Fin 2)"
  by (simp add: createParticle_def rng_simps fsub_def math_Pi_def Let_def
      CreatePF_def createSampleList_def numeral_2_eq_2 Move_def index_def Particle_Move_def
      wrap_once_zero float64_of_int_def)







section \<open>Resampling\<close>

subsection \<open>The wheel\<close>

lemma wheel_exit: "\<not> fgt beta (Fin 0) \<Longrightarrow> wheel pf beta startIdx acc = Some (Inr acc)"
  by (subst wheel.simps) simp

lemma wheel_step:
  "fgt beta (Fin 0) \<Longrightarrow>
   wheel pf beta startIdx acc =
     (case index (listParticles pf) startIdx of
        Inl e \<Rightarrow> Some (Inl e)
      | Inr p \<Rightarrow>
          (case go_rem (startIdx + 1) (numSamples pf) of
             Inl e \<Rightarrow> Some (Inl e)
           | Inr j \<Rightarrow>
               wheel pf (fsub beta (Weight p)) j
                 (if fgt (Weight p) beta then fuzz pf p acc else acc)))"
  by (subst wheel.simps) simp

lemma go_rem_nonneg: "0 \<le> a \<Longrightarrow> 0 < b \<Longrightarrow> go_rem a b = Inr (a mod b)"
  by (auto simp: go_rem_def smod_int_alt_def sgn_if)








subsection \<open>The length of the population\<close>

text \<open>
  Claim C1, at a failing input. \<^verbatim>\<open>CreatePF(2, 1, ...)\<close>, a weighting pass that gives
  both particles the likelihood 1, and \<^verbatim>\<open>ResampleAndFuzz\<close> with \<^verbatim>\<open>rand.Float64()\<close>
  returning 1/4: the normalised weights are 1/2 and \<open>beta\<close> is \<open>1/4 * 1 * 2 = 1/2\<close>. At
  the first particle \<^verbatim>\<open>p.Weight > beta\<close> is false, \<open>beta\<close> becomes 0 and the loop ends:
  the draw selects no particle. Both draws end so, and the call returns with an empty
  population where \<^verbatim>\<open>numSamples\<close> is 2.
\<close>

theorem ResampleAndFuzz_population_shrinks:
  "ResampleAndFuzz
     (CalculateWeights
        (fst (CreatePF 2 (Fin 1) (Fin 0) (Fin 10) (Fin 0) (Fin 10)
                (Fin (1 / 10)) (Fin (1 / 10)) (Fin (1 / 10)) (constant_rng (1 / 4) 0 0)))
        (\<lambda>p. Fin 1))
     (constant_rng (1 / 4) 0 0)
   = Some (Inr ((CalculateWeights
        (fst (CreatePF 2 (Fin 1) (Fin 0) (Fin 10) (Fin 0) (Fin 10)
                (Fin (1 / 10)) (Fin (1 / 10)) (Fin (1 / 10)) (constant_rng (1 / 4) 0 0)))
        (\<lambda>p. Fin 1))\<lparr>listParticles := [], iteration := 1\<rparr>, constant_rng (1 / 4) 0 0))
   \<and> numSamples (CalculateWeights
        (fst (CreatePF 2 (Fin 1) (Fin 0) (Fin 10) (Fin 0) (Fin 10)
                (Fin (1 / 10)) (Fin (1 / 10)) (Fin (1 / 10)) (constant_rng (1 / 4) 0 0)))
        (\<lambda>p. Fin 1)) = 2"
  by (simp add: createParticle_def rng_simps fsub_def math_Pi_def Let_def
      CreatePF_def createSampleList_def CalculateWeights_def checkAndSetMaxWeight_def
      UpdateWeight_def fgt_def numeral_2_eq_2 go_rem_nonneg
      ResampleAndFuzz_def index_def float64_of_int_def trunc_to_zero_def wheel_exit wheel_step)

subsection \<open>A weighting pass with no plausible particle\<close>









end
